theory Spec2Isabelle
  imports Complex_Main
begin

section \<open>Numbers\<close>

text \<open>
  The server computes with JavaScript numbers. Money amounts and random draws are
  modelled by exact rationals (rounding of doubles is not represented, and \<open>-0\<close> is
  identified with \<open>0\<close>). The probability of a catalogue item is read with \<open>||\<close> and
  divided in place, so it can be missing (\<open>undefined\<close>), \<open>NaN\<close> or infinite: it is a
  \<open>jsnum option\<close>, \<open>None\<close> standing for \<open>undefined\<close>.
\<close>

datatype jsnum = NaN | NegInf | Fin rat | PosInf

text \<open>\<open>a + b\<close> on numbers.\<close>

fun jadd :: "jsnum \<Rightarrow> jsnum \<Rightarrow> jsnum" where
  "jadd NaN b = NaN"
| "jadd a NaN = NaN"
| "jadd (Fin a) (Fin b) = Fin (a + b)"
| "jadd (Fin a) b = b"
| "jadd a (Fin b) = a"
| "jadd PosInf PosInf = PosInf"
| "jadd NegInf NegInf = NegInf"
| "jadd PosInf NegInf = NaN"
| "jadd NegInf PosInf = NaN"

text \<open>\<open>a / b\<close> on numbers; a zero divisor is \<open>+0\<close>.\<close>

fun jdiv :: "jsnum \<Rightarrow> jsnum \<Rightarrow> jsnum" where
  "jdiv NaN b = NaN"
| "jdiv a NaN = NaN"
| "jdiv (Fin a) (Fin b) =
     (if b \<noteq> 0 then Fin (a / b)
      else if a = 0 then NaN else if 0 < a then PosInf else NegInf)"
| "jdiv (Fin a) b = Fin 0"
| "jdiv PosInf (Fin b) = (if 0 \<le> b then PosInf else NegInf)"
| "jdiv NegInf (Fin b) = (if 0 \<le> b then NegInf else PosInf)"
| "jdiv a b = NaN"

text \<open>\<open>a <= b\<close> on numbers: false as soon as one side is \<open>NaN\<close>.\<close>

fun jle :: "jsnum \<Rightarrow> jsnum \<Rightarrow> bool" where
  "jle NaN b = False"
| "jle a NaN = False"
| "jle (Fin a) (Fin b) = (a \<le> b)"
| "jle NegInf b = True"
| "jle a PosInf = True"
| "jle a b = False"

text \<open>Truthiness of a number: \<open>0\<close> and \<open>NaN\<close> are falsy.\<close>

fun truthy :: "jsnum \<Rightarrow> bool" where
  "truthy NaN = False"
| "truthy (Fin a) = (a \<noteq> 0)"
| "truthy a = True"

text \<open>\<open>p || d\<close> where \<open>p\<close> may be \<open>undefined\<close>.\<close>

fun orElse :: "jsnum option \<Rightarrow> jsnum \<Rightarrow> jsnum" where
  "orElse None d = d"
| "orElse (Some p) d = (if truthy p then p else d)"

text \<open>\<open>p / s\<close> where \<open>p\<close> may be \<open>undefined\<close> (\<open>undefined / s\<close> is \<open>NaN\<close>).\<close>

fun divProbability :: "jsnum option \<Rightarrow> jsnum \<Rightarrow> jsnum" where
  "divProbability None s = NaN"
| "divProbability (Some p) s = jdiv p s"

text \<open>
  \<open>Number(x.toFixed(2))\<close>: the sign is split off, the magnitude is rounded to the nearest
  hundredth with ties going up; from \<open>10^21\<close> on \<open>toFixed\<close> prints the number itself.
\<close>

definition toFixed2 :: "rat \<Rightarrow> rat" where
  "toFixed2 x =
     (if 10 ^ 21 \<le> \<bar>x\<bar> then x
      else sgn x * (of_int \<lfloor>\<bar>x\<bar> * 100 + 1 / 2\<rfloor> / 100))"

section \<open>Data model\<close>

text \<open>
  Identifiers are valid \<open>ObjectId\<close>s; \<open>String(a) === String(b)\<close> holds exactly when
  the two identifiers are the same.
\<close>

type_synonym objectId = nat

datatype GameState = Purchasing | Simulating | DONOTUSE_Results | Ended

datatype GameType = SinglePlayer | Cooperative | Competitive

text \<open>
  What a service call can throw: an object \<open>{ code, message }\<close>, a bare string, or the
  runtime's \<open>TypeError\<close> for a property read on \<open>undefined\<close> or \<open>null\<close>.
\<close>

datatype error = HttpError nat string | Thrown string | TypeError

record threatActor =
  ta_slug :: string
  ta_probability :: "jsnum option"
  ta_includeFrom :: "rat option"
  ta_costModifier :: "rat option"

record asset =
  a_slug :: string
  a_location :: string
  a_probability :: "jsnum option"

text \<open>\<open>sa_number\<close> is the value of \<open>Number(securityArea.number)\<close>.\<close>

record securityArea =
  sa_id :: objectId
  sa_number :: rat
  sa_source :: string

record implementedControl =
  ic_id :: objectId
  ic_cost :: rat
  ic_effectiveness :: rat
  ic_asset :: "string option"
  ic_source :: string
  ic_securityAreas :: "objectId list"
  ic_turnImplemented :: int
  ic_mitigation :: rat

record event =
  e_id :: objectId
  e_game :: objectId
  e_turn :: int
  e_cost :: rat
  e_asset :: string
  e_threatActor :: string
  e_securityAreas :: "objectId list"

text \<open>\<open>{ ...event, mitigated, mitigatedBy, mitigatedCost }\<close>\<close>

record experiencedEvent =
  ee_event :: event
  mitigated :: bool
  mitigatedBy :: "objectId option"
  mitigatedCost :: "rat option"

record organisation =
  o_id :: objectId
  balance :: rat
  pastBalances :: "rat list"
  controls :: "implementedControl list"
  members :: "objectId list"
  events :: "experiencedEvent list"

record game =
  g_id :: objectId
  gameType :: GameType
  currentTurn :: int
  maxTurns :: int
  moneyPerTurn :: rat
  state :: GameState
  source :: string
  minNumOfEvents :: int
  maxNumOfEvents :: int
  minCostPerEvent :: rat
  maxCostPerEvent :: rat
  allowUnavoidableIncidents :: bool
  organisations :: "objectId list"
  readyOrganisations :: "objectId list"

text \<open>
  Everything the services read and write: the document collections (a list of documents
  each, in insertion order), the simulation service's catalogues, and the random source.

  \<open>threatActorsCat\<close> and \<open>assetsCat\<close> hold the objects of \<open>this._threatActors\<close> and
  \<open>this._assets\<close>. \<open>filterAssetsWithControls\<close> pushes objects of \<open>this._assets\<close>
  themselves into its result, so \<open>this._assetsWithControls\<close> is a list of references:
  positions in \<open>assetsCat\<close>. \<open>randomSource n\<close> is what the \<open>n\<close>-th call of
  \<open>Math.random()\<close> returns, \<open>randomCalls\<close> counts the calls made so far, and \<open>nextId\<close> is
  the identifier the next created document gets.
\<close>

record world =
  gamesDb :: "game list"
  organisationsDb :: "organisation list"
  eventsDb :: "event list"
  securityAreasDb :: "securityArea list"
  threatActorsCat :: "threatActor list"
  assetsCat :: "asset list"
  assetsWithControls :: "nat list"
  randomSource :: "nat \<Rightarrow> rat"
  randomCalls :: nat
  nextId :: objectId

section \<open>Persistence and the random source\<close>

text \<open>\<open>Math.random()\<close>\<close>

definition random :: "world \<Rightarrow> rat \<times> world" where
  "random w = (randomSource w (randomCalls w), w\<lparr>randomCalls := Suc (randomCalls w)\<rparr>)"

text \<open>\<open>Model.findById(id)\<close>: the document with that identifier, or \<open>null\<close>.\<close>

fun findById :: "('d \<Rightarrow> objectId) \<Rightarrow> 'd list \<Rightarrow> objectId \<Rightarrow> 'd option" where
  "findById key [] i = None"
| "findById key (d # ds) i = (if key d = i then Some d else findById key ds i)"

text \<open>\<open>Service._getById\<close>\<close>

definition getById :: "('d \<Rightarrow> objectId) \<Rightarrow> 'd list \<Rightarrow> objectId \<Rightarrow> error + 'd" where
  "getById key ds i =
     (case findById key ds i of
        None \<Rightarrow> Inl (Thrown ''No document found matching provided ID.'')
      | Some d \<Rightarrow> Inr d)"

text \<open>\<open>document.save()\<close> of a document that was fetched from the collection.\<close>

fun saveDoc :: "('d \<Rightarrow> objectId) \<Rightarrow> 'd \<Rightarrow> 'd list \<Rightarrow> 'd list" where
  "saveDoc key d [] = []"
| "saveDoc key d (x # xs) = (if key x = key d then d # xs else x # saveDoc key d xs)"

definition saveOrganisation :: "organisation \<Rightarrow> world \<Rightarrow> world" where
  "saveOrganisation organisation w =
     w\<lparr>organisationsDb := saveDoc o_id organisation (organisationsDb w)\<rparr>"

definition saveGame :: "game \<Rightarrow> world \<Rightarrow> world" where
  "saveGame g w = w\<lparr>gamesDb := saveDoc g_id g (gamesDb w)\<rparr>"

text \<open>
  \<open>.populate({ path: 'organisations' })\<close>: the referenced organisation documents that
  exist, in the order of the references.
\<close>

definition populate :: "world \<Rightarrow> objectId list \<Rightarrow> organisation list" where
  "populate w ids = List.map_filter (findById o_id (organisationsDb w)) ids"

section \<open>Simulations service: weighted selection\<close>

text \<open>
  The test of the filter in \<open>_generateThreatActor\<close>:
  \<open>!threatActor.includeFrom || threatActor.includeFrom <= gameProgress\<close>.
\<close>

definition included :: "jsnum \<Rightarrow> threatActor \<Rightarrow> bool" where
  "included gameProgress threatActor =
     (case ta_includeFrom threatActor of
        None \<Rightarrow> True
      | Some f \<Rightarrow> f = 0 \<or> jle (Fin f) gameProgress)"

text \<open>
  \<open>_generateThreatActor\<close> and \<open>_generateAsset\<close> run the same two loops over the
  candidates' probabilities; they are written once, on the list of the probabilities in
  candidate order.

  \<open>for (const x of xs) sumProbabilities += x.probability || 1 / xs.length;\<close>
\<close>

definition sumProbabilities :: "jsnum option list \<Rightarrow> jsnum" where
  "sumProbabilities ps =
     fold (\<lambda>p s. jadd s (orElse p (jdiv (Fin 1) (Fin (of_nat (length ps)))))) ps (Fin 0)"

text \<open>
  \<open>for (const x of xs) { sum += x.probability || 0.1; if (rand <= sum) return x; }\<close>:
  the position of the returned candidate, \<open>None\<close> when the loop runs out and the
  function returns \<open>undefined\<close>.
\<close>

fun select :: "rat \<Rightarrow> jsnum \<Rightarrow> jsnum option list \<Rightarrow> nat option" where
  "select rand sum0 [] = None"
| "select rand sum0 (p # ps) =
     (let sum1 = jadd sum0 (orElse p (Fin (1 / 10)))
      in if jle (Fin rand) sum1 then Some 0 else map_option Suc (select rand sum1 ps))"

text \<open>
  The normalising \<open>map\<close>: its callback assigns to the \<open>probability\<close> of the object it is
  given, so the objects of the catalogue are updated in place, one reference after the
  other.
\<close>

definition normaliseThreatActors :: "jsnum \<Rightarrow> nat list \<Rightarrow> threatActor list \<Rightarrow> threatActor list" where
  "normaliseThreatActors s refs heap =
     fold (\<lambda>i h. h[i := (h ! i)\<lparr>ta_probability := Some (divProbability (ta_probability (h ! i)) s)\<rparr>])
       refs heap"

definition normaliseAssets :: "jsnum \<Rightarrow> nat list \<Rightarrow> asset list \<Rightarrow> asset list" where
  "normaliseAssets s refs heap =
     fold (\<lambda>i h. h[i := (h ! i)\<lparr>a_probability := Some (divProbability (a_probability (h ! i)) s)\<rparr>])
       refs heap"

text \<open>
  The candidates of \<open>_generateThreatActor\<close>: \<open>filter\<close> builds a new array of references
  to the catalogue's objects that pass the test.
\<close>

definition candidateActors :: "jsnum \<Rightarrow> world \<Rightarrow> nat list" where
  "candidateActors gameProgress w =
     filter (\<lambda>i. included gameProgress (threatActorsCat w ! i)) [0..<length (threatActorsCat w)]"

text \<open>
  The candidates of \<open>_generateAsset\<close>:
  \<open>allowUnavoidableIncidents ? this._assets : this._assetsWithControls\<close>.
\<close>

definition candidateAssets :: "bool \<Rightarrow> world \<Rightarrow> nat list" where
  "candidateAssets allowUnavoidable w =
     (if allowUnavoidable then [0..<length (assetsCat w)] else assetsWithControls w)"

text \<open>
  \<open>_generateThreatActor(gameProgress)\<close>. The result is the reference of the returned
  object (its position in \<open>threatActorsCat\<close>), or \<open>None\<close> for \<open>undefined\<close>.
\<close>

definition generateThreatActor :: "jsnum \<Rightarrow> world \<Rightarrow> nat option \<times> world" where
  "generateThreatActor gameProgress w =
     (let threatActors = candidateActors gameProgress w;
          (rand, w1) = random w;
          s = sumProbabilities (map (\<lambda>i. ta_probability (threatActorsCat w1 ! i)) threatActors);
          w2 = (if s \<noteq> Fin 1
                then w1\<lparr>threatActorsCat := normaliseThreatActors s threatActors (threatActorsCat w1)\<rparr>
                else w1)
      in (map_option (\<lambda>k. threatActors ! k)
            (select rand (Fin 0) (map (\<lambda>i. ta_probability (threatActorsCat w2 ! i)) threatActors)),
          w2))"

text \<open>\<open>_generateAsset(allowUnavoidableIncidents)\<close>, likewise.\<close>

definition generateAsset :: "bool \<Rightarrow> world \<Rightarrow> nat option \<times> world" where
  "generateAsset allowUnavoidable w =
     (let assets = candidateAssets allowUnavoidable w;
          (rand, w1) = random w;
          s = sumProbabilities (map (\<lambda>i. a_probability (assetsCat w1 ! i)) assets);
          w2 = (if s \<noteq> Fin 1
                then w1\<lparr>assetsCat := normaliseAssets s assets (assetsCat w1)\<rparr>
                else w1)
      in (map_option (\<lambda>k. assets ! k)
            (select rand (Fin 0) (map (\<lambda>i. a_probability (assetsCat w2 ! i)) assets)),
          w2))"

section \<open>Simulations service: security areas and cost\<close>

definition getAllBySource :: "string \<Rightarrow> world \<Rightarrow> securityArea list" where
  "getAllBySource src w = filter (\<lambda>a. sa_source a = src) (securityAreasDb w)"

text \<open>\<open>xs[i]\<close> for an integer \<open>i\<close>: \<open>undefined\<close> out of range.\<close>

definition elemAt :: "'a list \<Rightarrow> int \<Rightarrow> 'a option" where
  "elemAt xs i = (if 0 \<le> i \<and> i < int (length xs) then Some (xs ! nat i) else None)"

text \<open>\<open>xs.splice(i, 1)\<close>: a negative \<open>i\<close> counts from the end.\<close>

definition splice1 :: "int \<Rightarrow> 'a list \<Rightarrow> 'a list" where
  "splice1 i xs =
     (let len = int (length xs);
          start = (if i < 0 then max (len + i) 0 else min i len)
      in take (nat start) xs @ drop (Suc (nat start)) xs)"

fun securityAreasLoop ::
  "nat \<Rightarrow> securityArea list \<Rightarrow> securityArea option list \<Rightarrow> world
     \<Rightarrow> securityArea option list \<times> world" where
  "securityAreasLoop 0 allSecurityAreas eventSecurityAreas w = (eventSecurityAreas, w)"
| "securityAreasLoop (Suc n) allSecurityAreas eventSecurityAreas w =
     (let (r, w') = random w;
          randIdx = \<lfloor>r * of_int (int (length allSecurityAreas) - 1 - 0) + 0\<rfloor>
      in securityAreasLoop n (splice1 randIdx allSecurityAreas)
           (eventSecurityAreas @ [elemAt allSecurityAreas randIdx]) w')"

text \<open>
  \<open>sort((a, b) => Number(a.number) - Number(b.number))\<close>: a stable sort by number, the
  \<open>undefined\<close> entries last.
\<close>

definition sortByNumber :: "securityArea option list \<Rightarrow> securityArea option list" where
  "sortByNumber xs =
     map Some (sort_key sa_number (List.map_filter (\<lambda>x. x) xs)) @ filter (\<lambda>x. x = None) xs"

definition generateSecurityAreas :: "string \<Rightarrow> world \<Rightarrow> securityArea option list \<times> world" where
  "generateSecurityAreas src w =
     (let allSecurityAreas = getAllBySource src w;
          (r, w1) = random w;
          numOfSecurityAreas = \<lfloor>r * (3 - 1 + 1) + 1\<rfloor>;
          (eventSecurityAreas, w2) = securityAreasLoop (nat numOfSecurityAreas) allSecurityAreas [] w1
      in (sortByNumber eventSecurityAreas, w2))"

text \<open>
  \<open>_generateCost(min, max, costModifier = 1.0)\<close>: the default applies when the actor has
  no \<open>costModifier\<close>.
\<close>

definition generateCost :: "rat \<Rightarrow> rat \<Rightarrow> rat option \<Rightarrow> world \<Rightarrow> rat \<times> world" where
  "generateCost mn mx costModifier w =
     (let (r, w1) = random w
      in (toFixed2 (r * (mx - mn + 1) + mn) * (case costModifier of None \<Rightarrow> 1 | Some c \<Rightarrow> c), w1))"

section \<open>Simulations service: the events of a turn\<close>

text \<open>\<open>eventsService.create\<close>\<close>

definition createEvent ::
  "objectId \<Rightarrow> int \<Rightarrow> rat \<Rightarrow> string \<Rightarrow> string \<Rightarrow> objectId list \<Rightarrow> world \<Rightarrow> event \<times> world" where
  "createEvent gameId turn cost threatActorSlug assetSlug areas w =
     (let ev = \<lparr>e_id = nextId w, e_game = gameId, e_turn = turn, e_cost = cost,
                e_asset = assetSlug, e_threatActor = threatActorSlug, e_securityAreas = areas\<rparr>
      in (ev, w\<lparr>eventsDb := eventsDb w @ [ev], nextId := Suc (nextId w)\<rparr>))"

text \<open>
  The body of the loop of \<open>_simulateEventsForTurn\<close>. Reading \<open>costModifier\<close> or \<open>slug\<close> of
  an \<open>undefined\<close> actor or asset, or \<open>id\<close> of an \<open>undefined\<close> security area, is a
  \<open>TypeError\<close>.
\<close>

definition generateEvent :: "game \<Rightarrow> world \<Rightarrow> (error + event) \<times> world" where
  "generateEvent g w =
     (let (threatActor, w1) =
            generateThreatActor (jdiv (Fin (of_int (currentTurn g))) (Fin (of_int (maxTurns g)))) w;
          (asset, w2) = generateAsset (allowUnavoidableIncidents g) w1;
          (securityAreas, w3) = generateSecurityAreas (source g) w2
      in case threatActor of
           None \<Rightarrow> (Inl TypeError, w3)
         | Some t \<Rightarrow>
             (let (cost, w4) =
                    generateCost (minCostPerEvent g) (maxCostPerEvent g)
                      (ta_costModifier (threatActorsCat w3 ! t)) w3
              in case asset of
                   None \<Rightarrow> (Inl TypeError, w4)
                 | Some a \<Rightarrow>
                     (case those securityAreas of
                        None \<Rightarrow> (Inl TypeError, w4)
                      | Some areas \<Rightarrow>
                          (let (ev, w5) =
                                 createEvent (g_id g) (currentTurn g) cost
                                   (ta_slug (threatActorsCat w4 ! t)) (a_slug (assetsCat w4 ! a))
                                   (map sa_id areas) w4
                           in (Inr ev, w5)))))"

text \<open>\<open>for (let i = 1; i <= numOfEvents; i++)\<close>\<close>

fun eventsLoop :: "nat \<Rightarrow> game \<Rightarrow> event list \<Rightarrow> world \<Rightarrow> (error + event list) \<times> world" where
  "eventsLoop 0 g eventsForTurn w = (Inr eventsForTurn, w)"
| "eventsLoop (Suc n) g eventsForTurn w =
     (case generateEvent g w of
        (Inl e, w') \<Rightarrow> (Inl e, w')
      | (Inr ev, w') \<Rightarrow> eventsLoop n g (eventsForTurn @ [ev]) w')"

definition simulateEventsForTurn :: "objectId \<Rightarrow> world \<Rightarrow> (error + event list) \<times> world" where
  "simulateEventsForTurn gameId w =
     (case getById g_id (gamesDb w) gameId of
        Inl e \<Rightarrow> (Inl e, w)
      | Inr g \<Rightarrow>
          (let (r, w1) = random w;
               numOfEvents =
                 \<lfloor>r * of_int (maxNumOfEvents g - minNumOfEvents g) + of_int (minNumOfEvents g)\<rfloor>
           in eventsLoop (nat numOfEvents) g [] w1))"

section \<open>Organisations service\<close>

text \<open>
  The two inner loops of \<open>simulateEvent\<close>, for one control: the identifier of some
  security area of the control equals the identifier of some security area of the event
  (\<open>String(controlSecurityAreaId) === String(eventSecurityArea['id'])\<close>), the control's
  asset being the event's. A control without an asset never matches.
\<close>

definition matchesEvent :: "implementedControl \<Rightarrow> event \<Rightarrow> bool" where
  "matchesEvent control ev =
     list_ex (\<lambda>controlSecurityAreaId.
        list_ex (\<lambda>eventSecurityArea.
           ic_asset control = Some (e_asset ev) \<and> controlSecurityAreaId = eventSecurityArea)
          (e_securityAreas ev))
       (ic_securityAreas control)"

text \<open>
  The loop over \<open>organisation.controls\<close>: it stops at the first control that matches,
  adds to that control's \<open>mitigation\<close>, and yields \<open>mitigatedBy\<close> and \<open>mitigatedCost\<close>;
  \<open>None\<close> when \<open>mitigated\<close> stays false.
\<close>

fun controlsLoop ::
  "event \<Rightarrow> implementedControl list \<Rightarrow> implementedControl list \<times> (objectId \<times> rat) option" where
  "controlsLoop ev [] = ([], None)"
| "controlsLoop ev (control # rest) =
     (if matchesEvent control ev
      then (let mitigatedCost' = e_cost ev - e_cost ev * ic_effectiveness control
            in (control\<lparr>ic_mitigation := ic_mitigation control + (e_cost ev - mitigatedCost')\<rparr>
                  # rest,
                Some (ic_id control, mitigatedCost')))
      else (let (rest', m) = controlsLoop ev rest in (control # rest', m)))"

text \<open>\<open>_basicDetails\<close> of an organisation document.\<close>

definition organisationDetails :: "organisation \<Rightarrow> organisation" where
  "organisationDetails document = document\<lparr>pastBalances := []\<rparr>"

definition simulateEvent :: "objectId \<Rightarrow> objectId \<Rightarrow> world \<Rightarrow> (error + organisation) \<times> world" where
  "simulateEvent organisationId eventId w =
     (case getById o_id (organisationsDb w) organisationId of
        Inl e \<Rightarrow> (Inl e, w)
      | Inr organisation \<Rightarrow>
          (case getById e_id (eventsDb w) eventId of
             Inl e \<Rightarrow> (Inl e, w)
           | Inr ev \<Rightarrow>
               (let (controls', m) = controlsLoop ev (controls organisation);
                    mitigatedCost' = map_option snd m;
                    organisation' = organisation
                      \<lparr>controls := controls',
                       events := events organisation @
                         [\<lparr>ee_event = ev, mitigated = (m \<noteq> None),
                           mitigatedBy = map_option fst m, mitigatedCost = mitigatedCost'\<rparr>],
                       balance := balance organisation -
                         (case mitigatedCost' of
                            None \<Rightarrow> e_cost ev
                          | Some c \<Rightarrow> if c \<noteq> 0 then c else e_cost ev)\<rparr>
                in (Inr (organisationDetails organisation'),
                    saveOrganisation organisation' w))))"

definition simulateNewTurn :: "objectId \<Rightarrow> rat \<Rightarrow> world \<Rightarrow> (error + organisation) \<times> world" where
  "simulateNewTurn organisationId money w =
     (case getById o_id (organisationsDb w) organisationId of
        Inl e \<Rightarrow> (Inl e, w)
      | Inr organisation \<Rightarrow>
          (let organisation' = organisation\<lparr>balance := balance organisation + money\<rparr>
           in (Inr (organisationDetails organisation'), saveOrganisation organisation' w)))"

text \<open>
  \<open>if (organisation.pastBalances[currentTurn - 1]) throw ...\<close>: the test is the
  truthiness of the slot, and a slot that is out of range reads \<open>undefined\<close>.
\<close>

definition saveBalance :: "objectId \<Rightarrow> int \<Rightarrow> world \<Rightarrow> (error + unit) \<times> world" where
  "saveBalance organisationId turn w =
     (case getById o_id (organisationsDb w) organisationId of
        Inl e \<Rightarrow> (Inl e, w)
      | Inr organisation \<Rightarrow>
          if (case elemAt (pastBalances organisation) (turn - 1) of
                None \<Rightarrow> False
              | Some b \<Rightarrow> b \<noteq> 0)
          then (Inl (HttpError 500 ''Past balance already set!''), w)
          else (Inr (), saveOrganisation
                  (organisation\<lparr>pastBalances := pastBalances organisation @ [balance organisation]\<rparr>) w))"

section \<open>Simulations service: a turn\<close>

text \<open>\<open>for (const event of events) await organisationsService.simulateEvent(...)\<close>\<close>

fun applyEvents :: "objectId \<Rightarrow> event list \<Rightarrow> world \<Rightarrow> (error + unit) \<times> world" where
  "applyEvents organisationId [] w = (Inr (), w)"
| "applyEvents organisationId (ev # evs) w =
     (case simulateEvent organisationId (e_id ev) w of
        (Inl e, w') \<Rightarrow> (Inl e, w')
      | (Inr r, w') \<Rightarrow> applyEvents organisationId evs w')"

text \<open>The first loop over \<open>game.organisations\<close>.\<close>

fun balancesAndEvents :: "objectId list \<Rightarrow> int \<Rightarrow> event list \<Rightarrow> world \<Rightarrow> (error + unit) \<times> world" where
  "balancesAndEvents [] turn evs w = (Inr (), w)"
| "balancesAndEvents (organisationId # rest) turn evs w =
     (case saveBalance organisationId turn w of
        (Inl e, w1) \<Rightarrow> (Inl e, w1)
      | (Inr u, w1) \<Rightarrow>
          (case applyEvents organisationId evs w1 of
             (Inl e, w2) \<Rightarrow> (Inl e, w2)
           | (Inr u', w2) \<Rightarrow> balancesAndEvents rest turn evs w2))"

text \<open>The second loop over \<open>game.organisations\<close>.\<close>

fun newTurns :: "objectId list \<Rightarrow> rat \<Rightarrow> world \<Rightarrow> (error + unit) \<times> world" where
  "newTurns [] money w = (Inr (), w)"
| "newTurns (organisationId # rest) money w =
     (case simulateNewTurn organisationId money w of
        (Inl e, w1) \<Rightarrow> (Inl e, w1)
      | (Inr r, w1) \<Rightarrow> newTurns rest money w1)"

text \<open>\<open>SimulationsService.simulateTurn(gameId)\<close>\<close>

definition SimulationsService_simulateTurn :: "objectId \<Rightarrow> world \<Rightarrow> (error + unit) \<times> world" where
  "SimulationsService_simulateTurn gameId w =
     (case simulateEventsForTurn gameId w of
        (Inl e, w1) \<Rightarrow> (Inl e, w1)
      | (Inr evs, w1) \<Rightarrow>
          (case findById g_id (gamesDb w1) gameId of
             None \<Rightarrow> (Inl TypeError, w1)
           | Some g \<Rightarrow>
               (let ids = map o_id (populate w1 (organisations g))
                in case balancesAndEvents ids (currentTurn g) evs w1 of
                     (Inl e, w2) \<Rightarrow> (Inl e, w2)
                   | (Inr u, w2) \<Rightarrow> newTurns ids (moneyPerTurn g) w2)))"

section \<open>Games service\<close>

text \<open>
  \<open>GamesService.simulateTurn({ gameId, organisationId })\<close>. On success it returns
  \<open>_basicDetails\<close> of the game document, whose \<open>organisations\<close> are populated: the game
  and the organisation documents.
\<close>

definition GamesService_simulateTurn ::
  "objectId \<Rightarrow> objectId \<Rightarrow> world \<Rightarrow> (error + game \<times> organisation list) \<times> world" where
  "GamesService_simulateTurn gameId organisationId w =
     (case findById g_id (gamesDb w) gameId of
        None \<Rightarrow> (Inl TypeError, w)
      | Some g \<Rightarrow>
          if state g = Ended then (Inl (HttpError 403 ''Game is already finished''), w)
          else
            (let g1 = (if gameType g = Competitive
                       then g\<lparr>readyOrganisations := readyOrganisations g @ [organisationId]\<rparr>
                       else g)
             in if gameType g = Competitive \<and>
                   length (readyOrganisations g1) < length (populate w (organisations g))
                then (Inr (g1, populate w (organisations g)), saveGame g1 w)
                else
                  (let g2 = g1\<lparr>readyOrganisations := [], state := Simulating\<rparr>
                   in case SimulationsService_simulateTurn (g_id g2) (saveGame g2 w) of
                        (Inl e, w1) \<Rightarrow> (Inl e, w1)
                      | (Inr u, w1) \<Rightarrow>
                          (case findById g_id (gamesDb w1) gameId of
                             None \<Rightarrow> (Inl TypeError, w1)
                           | Some updatedGame \<Rightarrow>
                               (let updatedGame' =
                                      (if currentTurn updatedGame \<ge> maxTurns updatedGame
                                       then updatedGame\<lparr>state := Ended\<rparr>
                                       else updatedGame
                                         \<lparr>currentTurn := currentTurn updatedGame + 1,
                                          state := Purchasing\<rparr>)
                                in (Inr (updatedGame', populate w1 (organisations updatedGame')),
                                    saveGame updatedGame' w1))))))"

section \<open>Example data\<close>

text \<open>No documents, empty catalogues, and every random draw \<open>r\<close>.\<close>

definition emptyWorld :: "rat \<Rightarrow> world" where
  "emptyWorld r =
     \<lparr>gamesDb = [], organisationsDb = [], eventsDb = [], securityAreasDb = [],
      threatActorsCat = [], assetsCat = [], assetsWithControls = [],
      randomSource = (\<lambda>n. r), randomCalls = 0, nextId = 100\<rparr>"

definition firewall :: "rat \<Rightarrow> implementedControl" where
  "firewall effectiveness =
     \<lparr>ic_id = 50, ic_cost = 500, ic_effectiveness = effectiveness, ic_asset = Some ''desktop'',
      ic_source = ''original'', ic_securityAreas = [7], ic_turnImplemented = 0,
      ic_mitigation = 0\<rparr>"


definition alpha :: "rat \<Rightarrow> implementedControl list \<Rightarrow> organisation" where
  "alpha b cs =
     \<lparr>o_id = 1, balance = b, pastBalances = [], controls = cs, members = [31], events = []\<rparr>"

definition beta :: organisation where
  "beta =
     \<lparr>o_id = 2, balance = 300, pastBalances = [], controls = [], members = [32], events = []\<rparr>"


definition match5 :: "GameType \<Rightarrow> int \<Rightarrow> GameState \<Rightarrow> objectId list \<Rightarrow> game" where
  "match5 ty turn st ready =
     \<lparr>g_id = 10, gameType = ty, currentTurn = turn, maxTurns = 5, moneyPerTurn = 1000,
      state = st, source = ''original'', minNumOfEvents = 1, maxNumOfEvents = 3,
      minCostPerEvent = 250, maxCostPerEvent = 3000, allowUnavoidableIncidents = True,
      organisations = [1, 2], readyOrganisations = ready\<rparr>"

text \<open>
  A world in which a turn can be simulated: two organisations, three security areas, two
  threat actors and two assets with explicit probabilities, every random draw \<open>1/2\<close>.
\<close>

definition arena :: "game \<Rightarrow> world" where
  "arena g =
     \<lparr>gamesDb = [g], organisationsDb = [alpha 0 [firewall (4 / 5)], beta], eventsDb = [],
      securityAreasDb =
        [\<lparr>sa_id = 7, sa_number = 1, sa_source = ''original''\<rparr>,
         \<lparr>sa_id = 8, sa_number = 2, sa_source = ''original''\<rparr>,
         \<lparr>sa_id = 9, sa_number = 3, sa_source = ''original''\<rparr>],
      threatActorsCat =
        [\<lparr>ta_slug = ''criminal'', ta_probability = Some (Fin (1 / 2)), ta_includeFrom = None,
          ta_costModifier = Some 2\<rparr>,
         \<lparr>ta_slug = ''insider'', ta_probability = Some (Fin (1 / 2)), ta_includeFrom = None,
          ta_costModifier = Some 3\<rparr>],
      assetsCat =
        [\<lparr>a_slug = ''desktop'', a_location = ''Organisation'', a_probability = Some (Fin (1 / 2))\<rparr>,
         \<lparr>a_slug = ''router'', a_location = ''Organisation'', a_probability = Some (Fin (1 / 2))\<rparr>],
      assetsWithControls = [0], randomSource = (\<lambda>n. 1 / 2), randomCalls = 0, nextId = 100\<rparr>"

text \<open>
  A single-player game of five turns without events, and the world in which it is at a
  given turn: one organisation with the given balance and past balances.
\<close>

definition solo :: "int \<Rightarrow> GameState \<Rightarrow> game" where
  "solo turn st =
     \<lparr>g_id = 10, gameType = SinglePlayer, currentTurn = turn, maxTurns = 5, moneyPerTurn = 1000,
      state = st, source = ''original'', minNumOfEvents = 0, maxNumOfEvents = 0,
      minCostPerEvent = 250, maxCostPerEvent = 3000, allowUnavoidableIncidents = True,
      organisations = [1], readyOrganisations = []\<rparr>"

definition quiet :: "int \<Rightarrow> GameState \<Rightarrow> rat \<Rightarrow> rat list \<Rightarrow> nat \<Rightarrow> world" where
  "quiet turn st b pbs calls =
     (emptyWorld 0)
       \<lparr>gamesDb := [solo turn st],
        organisationsDb := [(alpha b [])\<lparr>pastBalances := pbs\<rparr>],
        randomCalls := calls\<rparr>"


text \<open>Catalogues whose items carry no probability.\<close>

definition noProbActors :: "threatActor list" where
  "noProbActors =
     [\<lparr>ta_slug = ''criminal'', ta_probability = None, ta_includeFrom = None,
       ta_costModifier = Some 2\<rparr>,
      \<lparr>ta_slug = ''insider'', ta_probability = None, ta_includeFrom = None,
       ta_costModifier = Some 3\<rparr>]"

definition noProbAssets :: "asset list" where
  "noProbAssets =
     [\<lparr>a_slug = ''desktop'', a_location = ''Organisation'', a_probability = None\<rparr>,
      \<lparr>a_slug = ''router'', a_location = ''Organisation'', a_probability = None\<rparr>]"



text \<open>
  Two actors of probability \<open>1/2\<close> each, the second one only from half of the game on;
  two assets, one of probability \<open>1/4\<close> and one without a probability.
\<close>

definition stagedActors :: "threatActor list" where
  "stagedActors =
     [\<lparr>ta_slug = ''criminal'', ta_probability = Some (Fin (1 / 2)), ta_includeFrom = None,
       ta_costModifier = Some 2\<rparr>,
      \<lparr>ta_slug = ''state'', ta_probability = Some (Fin (1 / 2)), ta_includeFrom = Some (1 / 2),
       ta_costModifier = Some 3\<rparr>]"

definition lightAssets :: "asset list" where
  "lightAssets =
     [\<lparr>a_slug = ''desktop'', a_location = ''Organisation'', a_probability = Some (Fin (1 / 4))\<rparr>,
      \<lparr>a_slug = ''router'', a_location = ''Organisation'', a_probability = None\<rparr>]"

section \<open>Vocabulary of the properties\<close>


text \<open>
  The test that holds a request back in a competitive game:
  \<open>game.readyOrganisations.length < game.organisations.length\<close> after the push.
\<close>

definition heldBack :: "game \<Rightarrow> objectId \<Rightarrow> world \<Rightarrow> bool" where
  "heldBack g organisationId w \<longleftrightarrow>
     gameType g = Competitive
   \<and> length (readyOrganisations g @ [organisationId]) < length (populate w (organisations g))"

text \<open>
  \<open>requestsMade gameId w n w'\<close>: the world \<open>w'\<close> is reached from \<open>w\<close> by a sequence of
  simulate-turn requests for the game, of which \<open>n\<close> ran the simulation to its end; the
  others failed or were held back.
\<close>

inductive requestsMade :: "objectId \<Rightarrow> world \<Rightarrow> nat \<Rightarrow> world \<Rightarrow> bool" for gameId w where
  start: "requestsMade gameId w 0 w"
| failed: "requestsMade gameId w n w1 \<Longrightarrow>
           GamesService_simulateTurn gameId organisationId w1 = (Inl e, w2) \<Longrightarrow>
           requestsMade gameId w n w2"
| held: "requestsMade gameId w n w1 \<Longrightarrow>
         findById g_id (gamesDb w1) gameId = Some g \<Longrightarrow> heldBack g organisationId w1 \<Longrightarrow>
         GamesService_simulateTurn gameId organisationId w1 = (Inr r, w2) \<Longrightarrow>
         requestsMade gameId w n w2"
| fired: "requestsMade gameId w n w1 \<Longrightarrow>
          findById g_id (gamesDb w1) gameId = Some g \<Longrightarrow> \<not> heldBack g organisationId w1 \<Longrightarrow>
          GamesService_simulateTurn gameId organisationId w1 = (Inr r, w2) \<Longrightarrow>
          requestsMade gameId w (Suc n) w2"

section \<open>Rejection of a finished game\<close>

text \<open>
  C8. A simulate-turn request for a game whose state is \<open>Ended\<close> throws
  \<open>{ code: 403, message: 'Game is already finished' }\<close>, and the world after the
  request is the world before it: the game, the organisations with their balances and
  histories, and the events are all unchanged.
\<close>

theorem simulateTurn_Ended_rejected:
  assumes "findById g_id (gamesDb w) gameId = Some g" and "state g = Ended"
  shows "GamesService_simulateTurn gameId organisationId w =
           (Inl (HttpError 403 ''Game is already finished''), w)"
  using assms by (simp add: GamesService_simulateTurn_def)

theorem simulateTurn_Ended_rejected_witness:
  "findById g_id (gamesDb (arena (match5 Competitive 5 Ended []))) 10
     = Some (match5 Competitive 5 Ended [])
   \<and> state (match5 Competitive 5 Ended []) = Ended
   \<and> GamesService_simulateTurn 10 1 (arena (match5 Competitive 5 Ended []))
       = (Inl (HttpError 403 ''Game is already finished''), arena (match5 Competitive 5 Ended []))"
proof -
  have found: "findById g_id (gamesDb (arena (match5 Competitive 5 Ended []))) 10
                 = Some (match5 Competitive 5 Ended [])"
    by (simp add: arena_def match5_def)
  have ended: "state (match5 Competitive 5 Ended []) = Ended"
    by (simp add: match5_def)
  from simulateTurn_Ended_rejected [OF found ended] found ended show ?thesis
    by simp
qed

section \<open>Documents and the control loop\<close>



lemma findById_saveDoc_same:
  "findById key ds (key d) = Some d0 \<Longrightarrow> findById key (saveDoc key d ds) (key d) = Some d"
  by (induction ds) (auto split: if_splits)

lemma findById_saveDoc_other:
  "i \<noteq> key d \<Longrightarrow> findById key (saveDoc key d ds) i = findById key ds i"
  by (induction ds) auto

lemma findById_key: "findById key ds i = Some d \<Longrightarrow> key d = i"
  by (induction ds) (auto split: if_splits)





lemma simulateEvent_Inl: "simulateEvent organisationId eventId w = (Inl e, w') \<Longrightarrow> w' = w"
  by (auto simp: simulateEvent_def Let_def split: sum.splits prod.splits)


section \<open>Frame of the application of one event\<close>





section \<open>Mitigation and the balance\<close>

lemma controlsLoop_no_match:
  "list_all (\<lambda>c. \<not> matchesEvent c ev) cs \<Longrightarrow> controlsLoop ev cs = (cs, None)"
  by (induction cs) simp_all

lemma controlsLoop_first_match:
  assumes "k < length cs" and "matchesEvent (cs ! k) ev"
    and "\<forall>j < k. \<not> matchesEvent (cs ! j) ev"
  shows "controlsLoop ev cs =
           (cs[k := (cs ! k)\<lparr>ic_mitigation := ic_mitigation (cs ! k) +
                (e_cost ev - (e_cost ev - e_cost ev * ic_effectiveness (cs ! k)))\<rparr>],
            Some (ic_id (cs ! k), e_cost ev - e_cost ev * ic_effectiveness (cs ! k)))"
  using assms
proof (induction cs arbitrary: k)
  case Nil
  then show ?case by simp
next
  case (Cons c cs)
  show ?case
  proof (cases k)
    case 0
    with Cons.prems show ?thesis by (simp add: Let_def)
  next
    case (Suc k')
    with Cons.prems have "\<not> matchesEvent c ev" by auto
    moreover from Suc Cons.prems have "k' < length cs" "matchesEvent (cs ! k') ev"
      "\<forall>j < k'. \<not> matchesEvent (cs ! j) ev" by auto
    ultimately show ?thesis using Cons.IH [of k'] Suc by (simp add: Let_def)
  qed
qed

lemma simulateEvent_outcome:
  assumes org: "findById o_id (organisationsDb w) organisationId = Some organisation"
    and ev: "findById e_id (eventsDb w) eventId = Some ev"
    and loop: "controlsLoop ev (controls organisation) = (cs', m)"
  shows "findById o_id (organisationsDb (snd (simulateEvent organisationId eventId w))) organisationId
           = Some (organisation
               \<lparr>controls := cs',
                events := events organisation @
                  [\<lparr>ee_event = ev, mitigated = (m \<noteq> None), mitigatedBy = map_option fst m,
                    mitigatedCost = map_option snd m\<rparr>],
                balance := balance organisation -
                  (case map_option snd m of
                     None \<Rightarrow> e_cost ev
                   | Some c \<Rightarrow> if c \<noteq> 0 then c else e_cost ev)\<rparr>)"
proof -
  define organisation' where "organisation' = organisation
               \<lparr>controls := cs',
                events := events organisation @
                  [\<lparr>ee_event = ev, mitigated = (m \<noteq> None), mitigatedBy = map_option fst m,
                    mitigatedCost = map_option snd m\<rparr>],
                balance := balance organisation -
                  (case map_option snd m of
                     None \<Rightarrow> e_cost ev
                   | Some c \<Rightarrow> if c \<noteq> 0 then c else e_cost ev)\<rparr>"
  have key: "o_id organisation' = organisationId"
    using findById_key [OF org] by (simp add: organisation'_def)
  have run: "snd (simulateEvent organisationId eventId w) = saveOrganisation organisation' w"
    using org ev loop by (simp add: simulateEvent_def getById_def Let_def organisation'_def)
  have "findById o_id (saveDoc o_id organisation' (organisationsDb w)) (o_id organisation')
          = Some organisation'"
    using org key by (intro findById_saveDoc_same [of _ _ _ organisation]) simp
  then show ?thesis
    using key by (simp add: run saveOrganisation_def organisation'_def)
qed

text \<open>No control matches: recorded unmitigated, the full cost is taken.\<close>

lemma simulateEvent_unmitigated:
  assumes org: "findById o_id (organisationsDb w) organisationId = Some organisation"
    and ev: "findById e_id (eventsDb w) eventId = Some ev"
    and none: "list_all (\<lambda>c. \<not> matchesEvent c ev) (controls organisation)"
  shows "findById o_id (organisationsDb (snd (simulateEvent organisationId eventId w))) organisationId
           = Some (organisation
               \<lparr>events := events organisation @
                  [\<lparr>ee_event = ev, mitigated = False, mitigatedBy = None, mitigatedCost = None\<rparr>],
                balance := balance organisation - e_cost ev\<rparr>)"
  using simulateEvent_outcome [OF org ev controlsLoop_no_match [OF none]] by simp

text \<open>
  The first matching control mitigates: the claim's amounts, and its debit whenever the
  mitigated cost is not zero.
\<close>

lemma simulateEvent_mitigated:
  assumes org: "findById o_id (organisationsDb w) organisationId = Some organisation"
    and ev: "findById e_id (eventsDb w) eventId = Some ev"
    and k: "k < length (controls organisation)" "matchesEvent (controls organisation ! k) ev"
      "\<forall>j < k. \<not> matchesEvent (controls organisation ! j) ev"
    and c: "c = controls organisation ! k" and mc: "mc = e_cost ev - e_cost ev * ic_effectiveness c"
  shows "findById o_id (organisationsDb (snd (simulateEvent organisationId eventId w))) organisationId
           = Some (organisation
               \<lparr>controls := (controls organisation)
                  [k := c\<lparr>ic_mitigation := ic_mitigation c + (e_cost ev - mc)\<rparr>],
                events := events organisation @
                  [\<lparr>ee_event = ev, mitigated = True, mitigatedBy = Some (ic_id c),
                    mitigatedCost = Some mc\<rparr>],
                balance := balance organisation - (if mc \<noteq> 0 then mc else e_cost ev)\<rparr>)"
  using simulateEvent_outcome [OF org ev controlsLoop_first_match [OF k]] c mc by simp


section \<open>The balance snapshot\<close>

text \<open>
  When the slot of the turn is the next free one and the balance is not zero, a second
  snapshot for the same turn is refused and changes nothing.
\<close>

lemma saveBalance_twice_raises:
  assumes org: "findById o_id (organisationsDb w) organisationId = Some organisation"
    and slot: "int (length (pastBalances organisation)) = turn - 1"
    and nz: "balance organisation \<noteq> 0"
  shows "saveBalance organisationId turn (snd (saveBalance organisationId turn w))
           = (Inl (HttpError 500 ''Past balance already set!''), snd (saveBalance organisationId turn w))"
proof -
  have key: "o_id organisation = organisationId" using org by (rule findById_key)
  let ?o = "organisation\<lparr>pastBalances := pastBalances organisation @ [balance organisation]\<rparr>"
  have first: "saveBalance organisationId turn w = (Inr (), saveOrganisation ?o w)"
    using org slot by (simp add: saveBalance_def getById_def elemAt_def)
  have found: "findById o_id (organisationsDb (saveOrganisation ?o w)) organisationId = Some ?o"
    using findById_saveDoc_same [of o_id "organisationsDb w" ?o organisation] org key
    by (simp add: saveOrganisation_def)
  have idx: "nat (turn - 1) = length (pastBalances organisation)" and nn: "0 \<le> turn - 1"
    using slot by simp_all
  have "elemAt (pastBalances ?o) (turn - 1) = Some (balance organisation)"
    using nn slot by (simp add: elemAt_def idx)
  with found nz have "saveBalance organisationId turn (saveOrganisation ?o w)
      = (Inl (HttpError 500 ''Past balance already set!''), saveOrganisation ?o w)"
    by (simp add: saveBalance_def getById_def)
  then show ?thesis by (simp only: first snd_conv)
qed

text \<open>
  C6. An organisation with balance 0 and no past balances has its balance saved twice
  for turn 1. The first call stores 0 in slot 0; the second call finds the slot
  populated with 0, which is falsy, throws nothing and appends a second snapshot.
\<close>

theorem saveBalance_twice_zero_balance:
  "(let w0 = (emptyWorld 0)\<lparr>organisationsDb := [alpha 0 []]\<rparr>;
        (r1, w1) = saveBalance 1 1 w0;
        (r2, w2) = saveBalance 1 1 w1
    in (r1, r2, map pastBalances (organisationsDb w1), map pastBalances (organisationsDb w2)))
     = (Inr (), Inr (), [[0]], [[0, 0]])"
  by (simp add: saveBalance_def getById_def emptyWorld_def alpha_def elemAt_def
      saveOrganisation_def)

section \<open>The cost of an event\<close>

lemma toFixed2_hundredths:
  assumes "\<bar>k\<bar> < 10 ^ 23"
  shows "toFixed2 (of_int k / 100) = of_int k / 100"
proof -
  have small: "\<not> 10 ^ 21 \<le> \<bar>(of_int k :: rat) / 100\<bar>"
  proof -
    have "\<bar>(of_int k :: rat)\<bar> = of_int \<bar>k\<bar>" by simp
    also have "\<dots> < of_int (10 ^ 23)" using assms by (simp only: of_int_less_iff)
    finally show ?thesis by simp
  qed
  have eq: "\<bar>(of_int k :: rat) / 100\<bar> * 100 + 1 / 2 = of_int \<bar>k\<bar> + 1 / 2" by simp
  have "\<lfloor>(of_int \<bar>k\<bar> :: rat) + 1 / 2\<rfloor> = \<bar>k\<bar>"
    by (rule floor_unique) simp_all
  with eq have fl: "\<lfloor>\<bar>(of_int k :: rat) / 100\<bar> * 100 + 1 / 2\<rfloor> = \<bar>k\<bar>"
    by (simp only:)
  have "sgn ((of_int k :: rat) / 100) * (of_int \<bar>k\<bar> / 100) = of_int k / 100"
    by (cases "k < 0") (auto simp: sgn_if)
  with small fl show ?thesis by (simp only: toFixed2_def if_False)
qed

text \<open>The draw before rounding lies in \<open>[min, max + 1)\<close>.\<close>

lemma generateCost_draw_range:
  fixes r mn mx :: rat
  assumes "0 \<le> r" and "r < 1" and "mn \<le> mx"
  shows "mn \<le> r * (mx - mn + 1) + mn \<and> r * (mx - mn + 1) + mn < mx + 1"
proof -
  have pos: "0 < mx - mn + 1" using assms(3) by simp
  have "0 \<le> r * (mx - mn + 1)" using assms(1) pos by simp
  moreover have "r * (mx - mn + 1) < 1 * (mx - mn + 1)"
    using assms(2) pos by (simp only: mult_less_cancel_right_pos)
  ultimately show ?thesis by simp
qed

text \<open>The example of the specification: a base draw of 1000.00 and a modifier of 2.\<close>

lemma generateCost_example:
  "randomSource w (randomCalls w) * (mx - mn + 1) + mn = 1000
     \<Longrightarrow> fst (generateCost mn mx (Some 2) w) = 2000"
  using toFixed2_hundredths [of 100000] by (simp add: generateCost_def random_def)

text \<open>
  C7. With \<open>minCostPerEvent = 500\<close>, \<open>maxCostPerEvent = 5000\<close>, a cost modifier of 1 and the
  random draw \<open>8191/8192\<close>, the cost of the event is 5000.45: the base value is drawn from
  \<open>[min, max + 1)\<close>, not from \<open>[min, max]\<close>.
\<close>

theorem generateCost_exceeds_max:
  "fst (generateCost 500 5000 (Some 1) (emptyWorld (8191 / 8192))) = 5000 + 45 / 100"
  by (simp add: generateCost_def random_def emptyWorld_def toFixed2_def floor_eq_iff)

section \<open>Weighted selection\<close>




lemma select_None:
  "list_all (\<lambda>q. 0 < q) qs \<Longrightarrow> a + sum_list qs < rand \<Longrightarrow>
     select rand (Fin a) (map (\<lambda>q. Some (Fin q)) qs) = None"
proof (induction qs arbitrary: a)
  case Nil
  then show ?case by simp
next
  case (Cons q qs)
  have "0 \<le> sum_list qs"
  proof (rule sum_list_nonneg)
    fix x assume "x \<in> set qs"
    with Cons.prems(1) show "0 \<le> x" by (auto simp: list_all_iff)
  qed
  with Cons.prems have "\<not> rand \<le> a + q" by simp
  moreover from Cons.prems have "select rand (Fin (a + q)) (map (\<lambda>q. Some (Fin q)) qs) = None"
    by (intro Cons.IH) (simp_all add: add.assoc)
  ultimately show ?case using Cons.prems by (simp add: Let_def)
qed

lemma length_normaliseThreatActors: "length (normaliseThreatActors s refs heap) = length heap"
  unfolding normaliseThreatActors_def by (induction refs arbitrary: heap) simp_all




lemma length_normaliseAssets: "length (normaliseAssets s refs heap) = length heap"
  unfolding normaliseAssets_def by (induction refs arbitrary: heap) simp_all













text \<open>
  C4. With two candidates that carry no probability and the draw \<open>1/8\<close>, both functions
  return the second candidate: the selection loop adds \<open>probability || 0.1\<close>, so the
  first candidate covers \<open>[0, 0.1]\<close> only. With the weight \<open>1/n = 1/2\<close> of the doc
  comment the first candidate would be returned, and the weights would sum to 1 instead
  of \<open>0.2\<close>.
\<close>

theorem selection_default_weight_is_a_tenth:
  "fst (generateThreatActor (Fin (1 / 5))
          ((emptyWorld (1 / 8))\<lparr>threatActorsCat := noProbActors\<rparr>)) = Some 1
   \<and> fst (generateAsset True ((emptyWorld (1 / 8))\<lparr>assetsCat := noProbAssets\<rparr>)) = Some 1"
  by (simp add: generateThreatActor_def generateAsset_def candidateActors_def candidateAssets_def
       included_def random_def sumProbabilities_def emptyWorld_def noProbActors_def
       noProbAssets_def Let_def)

text \<open>
  C9. A call of \<open>_generateThreatActor\<close> at a fifth of the game, with only the first of two
  actors included, rewrites that actor's stored probability from \<open>1/2\<close> to 1; a call of
  \<open>_generateAsset\<close> on a catalogue with probabilities \<open>1/4\<close> and \<open>undefined\<close> rewrites them
  to \<open>1/3\<close> and \<open>NaN\<close>. The catalogues after the call differ from the catalogues before
  it.
\<close>

theorem selection_rewrites_catalogue:
  "map ta_probability stagedActors = [Some (Fin (1 / 2)), Some (Fin (1 / 2))]
   \<and> map ta_probability (threatActorsCat (snd (generateThreatActor (Fin (1 / 5))
       ((emptyWorld (1 / 8))\<lparr>threatActorsCat := stagedActors\<rparr>))))
     = [Some (Fin 1), Some (Fin (1 / 2))]
   \<and> map a_probability lightAssets = [Some (Fin (1 / 4)), None]
   \<and> map a_probability (assetsCat (snd (generateAsset True
       ((emptyWorld (1 / 8))\<lparr>assetsCat := lightAssets\<rparr>))))
     = [Some (Fin (1 / 3)), Some NaN]"
  by (simp add: generateThreatActor_def generateAsset_def candidateActors_def candidateAssets_def
       included_def random_def sumProbabilities_def emptyWorld_def stagedActors_def
       lightAssets_def Let_def normaliseThreatActors_def normaliseAssets_def)

section \<open>The game document during a turn\<close>

text \<open>Nothing the simulation service does writes to the games collection.\<close>

lemma random_gamesDb: "random w = (r, w') \<Longrightarrow> gamesDb w' = gamesDb w"
  by (auto simp: random_def)

lemma generateThreatActor_gamesDb: "generateThreatActor gp w = (r, w') \<Longrightarrow> gamesDb w' = gamesDb w"
  by (auto simp: generateThreatActor_def random_def Let_def)

lemma generateAsset_gamesDb: "generateAsset a w = (r, w') \<Longrightarrow> gamesDb w' = gamesDb w"
  by (auto simp: generateAsset_def random_def Let_def)

lemma securityAreasLoop_gamesDb:
  "securityAreasLoop n xs acc w = (r, w') \<Longrightarrow> gamesDb w' = gamesDb w"
proof (induction n arbitrary: xs acc w)
  case 0
  then show ?case by simp
next
  case (Suc n)
  from Suc.prems Suc.IH show ?case
    by (auto simp: Let_def split: prod.splits dest!: random_gamesDb)
qed

lemma generateSecurityAreas_gamesDb:
  "generateSecurityAreas src w = (r, w') \<Longrightarrow> gamesDb w' = gamesDb w"
  by (auto simp: generateSecurityAreas_def Let_def split: prod.splits
      dest!: random_gamesDb securityAreasLoop_gamesDb)

lemma generateCost_gamesDb: "generateCost mn mx c w = (r, w') \<Longrightarrow> gamesDb w' = gamesDb w"
  by (auto simp: generateCost_def Let_def split: prod.splits dest!: random_gamesDb)

lemma createEvent_gamesDb:
  "createEvent gid t c ta a areas w = (r, w') \<Longrightarrow> gamesDb w' = gamesDb w"
  by (auto simp: createEvent_def Let_def)

lemma generateEvent_gamesDb: "generateEvent g w = (r, w') \<Longrightarrow> gamesDb w' = gamesDb w"
  by (auto simp: generateEvent_def Let_def split: prod.splits option.splits
      dest!: generateThreatActor_gamesDb generateAsset_gamesDb generateSecurityAreas_gamesDb
        generateCost_gamesDb createEvent_gamesDb)

lemma eventsLoop_gamesDb: "eventsLoop n g acc w = (r, w') \<Longrightarrow> gamesDb w' = gamesDb w"
proof (induction n arbitrary: acc w)
  case 0
  then show ?case by simp
next
  case (Suc n)
  from Suc.prems Suc.IH show ?case
    by (auto split: prod.splits sum.splits dest!: generateEvent_gamesDb)
qed

lemma simulateEventsForTurn_gamesDb:
  "simulateEventsForTurn gameId w = (r, w') \<Longrightarrow> gamesDb w' = gamesDb w"
  by (auto simp: simulateEventsForTurn_def Let_def split: sum.splits prod.splits
      dest!: random_gamesDb eventsLoop_gamesDb)

lemma saveBalance_gamesDb: "saveBalance i t w = (r, w') \<Longrightarrow> gamesDb w' = gamesDb w"
  by (auto simp: saveBalance_def saveOrganisation_def split: sum.splits if_splits)

lemma simulateEvent_gamesDb: "simulateEvent i e w = (r, w') \<Longrightarrow> gamesDb w' = gamesDb w"
  by (auto simp: simulateEvent_def saveOrganisation_def Let_def split: sum.splits prod.splits)

lemma simulateNewTurn_gamesDb: "simulateNewTurn i m w = (r, w') \<Longrightarrow> gamesDb w' = gamesDb w"
  by (auto simp: simulateNewTurn_def saveOrganisation_def Let_def split: sum.splits)

lemma applyEvents_gamesDb: "applyEvents i evs w = (r, w') \<Longrightarrow> gamesDb w' = gamesDb w"
proof (induction evs arbitrary: w)
  case Nil
  then show ?case by simp
next
  case (Cons ev evs)
  from Cons.prems Cons.IH show ?case
    by (auto split: prod.splits sum.splits dest!: simulateEvent_gamesDb)
qed

lemma balancesAndEvents_gamesDb:
  "balancesAndEvents ids t evs w = (r, w') \<Longrightarrow> gamesDb w' = gamesDb w"
proof (induction ids arbitrary: w)
  case Nil
  then show ?case by simp
next
  case (Cons i ids)
  from Cons.prems Cons.IH show ?case
    by (auto split: prod.splits sum.splits dest!: saveBalance_gamesDb applyEvents_gamesDb)
qed

lemma newTurns_gamesDb: "newTurns ids m w = (r, w') \<Longrightarrow> gamesDb w' = gamesDb w"
proof (induction ids arbitrary: w)
  case Nil
  then show ?case by simp
next
  case (Cons i ids)
  from Cons.prems Cons.IH show ?case
    by (auto split: prod.splits sum.splits dest!: simulateNewTurn_gamesDb)
qed

lemma SimulationsService_simulateTurn_gamesDb:
  "SimulationsService_simulateTurn gameId w = (r, w') \<Longrightarrow> gamesDb w' = gamesDb w"
  by (auto simp: SimulationsService_simulateTurn_def Let_def split: prod.splits sum.splits option.splits
      dest!: simulateEventsForTurn_gamesDb balancesAndEvents_gamesDb newTurns_gamesDb)


lemma simulateTurn_unfold:
  assumes found: "findById g_id (gamesDb w) gameId = Some g" and live: "state g \<noteq> Ended"
  shows "GamesService_simulateTurn gameId organisationId w =
     (if heldBack g organisationId w
      then (Inr (g\<lparr>readyOrganisations := readyOrganisations g @ [organisationId]\<rparr>,
                 populate w (organisations g)),
            saveGame (g\<lparr>readyOrganisations := readyOrganisations g @ [organisationId]\<rparr>) w)
      else (case SimulationsService_simulateTurn gameId
                   (saveGame (g\<lparr>readyOrganisations := [], state := Simulating\<rparr>) w) of
              (Inl e, w1) \<Rightarrow> (Inl e, w1)
            | (Inr u, w1) \<Rightarrow>
                (let g' = (if currentTurn g \<ge> maxTurns g
                           then g\<lparr>readyOrganisations := [], state := Ended\<rparr>
                           else g\<lparr>readyOrganisations := [], currentTurn := currentTurn g + 1,
                                  state := Purchasing\<rparr>)
                 in (Inr (g', populate w1 (organisations g')), saveGame g' w1))))"
proof -
  have key: "g_id g = gameId" using found by (rule findById_key)
  let ?g2 = "g\<lparr>readyOrganisations := [], state := Simulating\<rparr>"
  have after: "findById g_id (gamesDb w1) gameId = Some ?g2"
    if "SimulationsService_simulateTurn gameId (saveGame ?g2 w) = (r, w1)" for r w1
  proof -
    from that have "gamesDb w1 = saveDoc g_id ?g2 (gamesDb w)"
      by (auto simp: saveGame_def dest!: SimulationsService_simulateTurn_gamesDb)
    moreover have "findById g_id (saveDoc g_id ?g2 (gamesDb w)) (g_id ?g2) = Some ?g2"
      using found key by (intro findById_saveDoc_same [of _ _ _ g]) simp
    ultimately show ?thesis using key by simp
  qed
  show ?thesis
  proof (cases "heldBack g organisationId w")
    case True
    with found live show ?thesis
      by (simp add: GamesService_simulateTurn_def heldBack_def Let_def)
  next
    case False
    obtain r w1 where sim: "SimulationsService_simulateTurn gameId (saveGame ?g2 w) = (r, w1)"
      by (cases "SimulationsService_simulateTurn gameId (saveGame ?g2 w)")
    have g2: "(if gameType g = Competitive
               then g\<lparr>readyOrganisations := readyOrganisations g @ [organisationId]\<rparr>
               else g)\<lparr>readyOrganisations := [], state := Simulating\<rparr> = ?g2"
      by simp
    from found live False sim after [OF sim] key show ?thesis
      by (cases r) (auto simp: GamesService_simulateTurn_def heldBack_def Let_def g2)
  qed
qed

lemma simulateTurn_fired:
  assumes found: "findById g_id (gamesDb w) gameId = Some g"
    and nh: "\<not> heldBack g organisationId w"
    and res: "GamesService_simulateTurn gameId organisationId w = (Inr (g', os), w')"
  shows "g' = (if currentTurn g \<ge> maxTurns g
               then g\<lparr>readyOrganisations := [], state := Ended\<rparr>
               else g\<lparr>readyOrganisations := [], currentTurn := currentTurn g + 1,
                      state := Purchasing\<rparr>)
       \<and> findById g_id (gamesDb w') gameId = Some g'"
proof -
  have key: "g_id g = gameId" using found by (rule findById_key)
  have live: "state g \<noteq> Ended"
    using found res by (auto simp: GamesService_simulateTurn_def)
  let ?g2 = "g\<lparr>readyOrganisations := [], state := Simulating\<rparr>"
  obtain r w1 where sim: "SimulationsService_simulateTurn gameId (saveGame ?g2 w) = (r, w1)"
    by (cases "SimulationsService_simulateTurn gameId (saveGame ?g2 w)")
  have db1: "gamesDb w1 = saveDoc g_id ?g2 (gamesDb w)"
    using sim by (auto simp: saveGame_def dest!: SimulationsService_simulateTurn_gamesDb)
  have f1: "findById g_id (gamesDb w1) gameId = Some ?g2"
    using findById_saveDoc_same [of g_id "gamesDb w" ?g2 g] found key by (simp add: db1)
  from res nh sim have g': "g' = (if currentTurn g \<ge> maxTurns g
               then g\<lparr>readyOrganisations := [], state := Ended\<rparr>
               else g\<lparr>readyOrganisations := [], currentTurn := currentTurn g + 1,
                      state := Purchasing\<rparr>)" and w': "w' = saveGame g' w1"
    by (auto simp: simulateTurn_unfold [OF found live] Let_def split: sum.splits)
  have "g_id g' = gameId" using key by (simp add: g')
  then have "findById g_id (gamesDb w') gameId = Some g'"
    using findById_saveDoc_same [of g_id "gamesDb w1" g' ?g2] f1 by (simp add: w' saveGame_def)
  with g' show ?thesis by simp
qed

lemma simulateTurn_held:
  assumes found: "findById g_id (gamesDb w) gameId = Some g"
    and h: "heldBack g organisationId w"
    and res: "GamesService_simulateTurn gameId organisationId w = (Inr (g', os), w')"
  shows "g' = g\<lparr>readyOrganisations := readyOrganisations g @ [organisationId]\<rparr>
       \<and> w' = saveGame g' w \<and> findById g_id (gamesDb w') gameId = Some g'"
proof -
  have key: "g_id g = gameId" using found by (rule findById_key)
  have live: "state g \<noteq> Ended"
    using found res by (auto simp: GamesService_simulateTurn_def)
  from res h have g': "g' = g\<lparr>readyOrganisations := readyOrganisations g @ [organisationId]\<rparr>"
    and w': "w' = saveGame g' w"
    by (auto simp: simulateTurn_unfold [OF found live])
  have "g_id g' = gameId" using key by (simp add: g')
  then have "findById g_id (gamesDb w') gameId = Some g'"
    using findById_saveDoc_same [of g_id "gamesDb w" g' g] found by (simp add: w' saveGame_def)
  with g' w' show ?thesis by simp
qed

lemma simulateTurn_failed:
  assumes found: "findById g_id (gamesDb w) gameId = Some g"
    and res: "GamesService_simulateTurn gameId organisationId w = (Inl e, w')"
  shows "\<exists>g'. findById g_id (gamesDb w') gameId = Some g'
            \<and> currentTurn g' = currentTurn g \<and> maxTurns g' = maxTurns g
            \<and> (state g' = Ended \<longleftrightarrow> state g = Ended)"
proof (cases "state g = Ended")
  case True
  with found res have "w' = w" by (simp add: GamesService_simulateTurn_def)
  with found show ?thesis by simp
next
  case live: False
  have key: "g_id g = gameId" using found by (rule findById_key)
  let ?g2 = "g\<lparr>readyOrganisations := [], state := Simulating\<rparr>"
  obtain r w1 where sim: "SimulationsService_simulateTurn gameId (saveGame ?g2 w) = (r, w1)"
    by (cases "SimulationsService_simulateTurn gameId (saveGame ?g2 w)")
  have db1: "gamesDb w1 = saveDoc g_id ?g2 (gamesDb w)"
    using sim by (auto simp: saveGame_def dest!: SimulationsService_simulateTurn_gamesDb)
  have f1: "findById g_id (gamesDb w1) gameId = Some ?g2"
    using findById_saveDoc_same [of g_id "gamesDb w" ?g2 g] found key by (simp add: db1)
  from res sim have "w' = w1"
    by (auto simp: simulateTurn_unfold [OF found live] Let_def split: sum.splits if_splits)
  with f1 live show ?thesis by simp
qed


section \<open>Advancing the turn\<close>

lemmas turn_defs =
  GamesService_simulateTurn_def SimulationsService_simulateTurn_def simulateEventsForTurn_def
  getById_def random_def populate_def saveBalance_def simulateNewTurn_def elemAt_def
  saveOrganisation_def saveGame_def organisationDetails_def List.map_filter_def Let_def

lemma quiet_turn1:
  "GamesService_simulateTurn 10 1 (quiet 1 Purchasing 0 [] 0)
     = (Inr (solo 2 Purchasing, [(alpha 1000 [])\<lparr>pastBalances := [0]\<rparr>]),
        quiet 2 Purchasing 1000 [0] 1)"
  by (simp add: turn_defs quiet_def solo_def emptyWorld_def alpha_def)

lemma quiet_turn2:
  "GamesService_simulateTurn 10 1 (quiet 2 Purchasing 1000 [0] 1)
     = (Inr (solo 3 Purchasing, [(alpha 2000 [])\<lparr>pastBalances := [0, 1000]\<rparr>]),
        quiet 3 Purchasing 2000 [0, 1000] 2)"
  by (simp add: turn_defs quiet_def solo_def emptyWorld_def alpha_def)

lemma quiet_turn3:
  "GamesService_simulateTurn 10 1 (quiet 3 Purchasing 2000 [0, 1000] 2)
     = (Inr (solo 4 Purchasing, [(alpha 3000 [])\<lparr>pastBalances := [0, 1000, 2000]\<rparr>]),
        quiet 4 Purchasing 3000 [0, 1000, 2000] 3)"
  by (simp add: turn_defs quiet_def solo_def emptyWorld_def alpha_def)

lemma quiet_turn4:
  "GamesService_simulateTurn 10 1 (quiet 4 Purchasing 3000 [0, 1000, 2000] 3)
     = (Inr (solo 5 Purchasing, [(alpha 4000 [])\<lparr>pastBalances := [0, 1000, 2000, 3000]\<rparr>]),
        quiet 5 Purchasing 4000 [0, 1000, 2000, 3000] 4)"
  by (simp add: turn_defs quiet_def solo_def emptyWorld_def alpha_def)

lemma quiet_turn5:
  "GamesService_simulateTurn 10 1 (quiet 5 Purchasing 4000 [0, 1000, 2000, 3000] 4)
     = (Inr (solo 5 Ended, [(alpha 5000 [])\<lparr>pastBalances := [0, 1000, 2000, 3000, 4000]\<rparr>]),
        quiet 5 Ended 5000 [0, 1000, 2000, 3000, 4000] 5)"
  by (simp add: turn_defs quiet_def solo_def emptyWorld_def alpha_def)

lemma requestsMade_five_turns:
  assumes run: "requestsMade gameId w n w'"
    and found: "findById g_id (gamesDb w) gameId = Some g"
    and init: "currentTurn g = 1" "maxTurns g = 5" "state g \<noteq> Ended"
  shows "\<exists>g'. findById g_id (gamesDb w') gameId = Some g' \<and> maxTurns g' = 5 \<and> n \<le> 5
            \<and> currentTurn g' = (if n = 5 then 5 else 1 + int n)
            \<and> (state g' = Ended \<longleftrightarrow> n = 5)"
  using run
proof (induction rule: requestsMade.induct)
  case start
  with found init show ?case by simp
next
  case (failed n w1 organisationId e w2)
  then obtain g1 where g1: "findById g_id (gamesDb w1) gameId = Some g1" "maxTurns g1 = 5" "n \<le> 5"
    "currentTurn g1 = (if n = 5 then 5 else 1 + int n)" "state g1 = Ended \<longleftrightarrow> n = 5"
    by blast
  from simulateTurn_failed [OF g1(1) failed.hyps(2)] g1 show ?case by auto
next
  case (held n w1 h organisationId r w2)
  then obtain g1 where g1: "findById g_id (gamesDb w1) gameId = Some g1" "maxTurns g1 = 5" "n \<le> 5"
    "currentTurn g1 = (if n = 5 then 5 else 1 + int n)" "state g1 = Ended \<longleftrightarrow> n = 5"
    by blast
  from g1(1) held.hyps(2) have h: "h = g1" by simp
  obtain g2 os where r: "r = (g2, os)" by (cases r)
  from simulateTurn_held [OF g1(1) held.hyps(3) [unfolded h] held.hyps(4) [unfolded r]] g1
  show ?case by auto
next
  case (fired n w1 h organisationId r w2)
  then obtain g1 where g1: "findById g_id (gamesDb w1) gameId = Some g1" "maxTurns g1 = 5" "n \<le> 5"
    "currentTurn g1 = (if n = 5 then 5 else 1 + int n)" "state g1 = Ended \<longleftrightarrow> n = 5"
    by blast
  from g1(1) fired.hyps(2) have h: "h = g1" by simp
  obtain g2 os where r: "r = (g2, os)" by (cases r)
  have live: "state g1 \<noteq> Ended"
    using g1(1) fired.hyps(4) by (auto simp: GamesService_simulateTurn_def)
  with g1 have n: "n < 5" by simp
  from simulateTurn_fired [OF g1(1) fired.hyps(3) [unfolded h] fired.hyps(4) [unfolded r]]
  have g2: "g2 = (if currentTurn g1 \<ge> maxTurns g1
               then g1\<lparr>readyOrganisations := [], state := Ended\<rparr>
               else g1\<lparr>readyOrganisations := [], currentTurn := currentTurn g1 + 1,
                      state := Purchasing\<rparr>)"
    and f2: "findById g_id (gamesDb w2) gameId = Some g2"
    by simp_all
  show ?case
  proof (cases "n = 4")
    case True
    with g1 g2 f2 show ?thesis by simp
  next
    case False
    with n g1 g2 f2 show ?thesis by simp
  qed
qed

text \<open>
  C2, as the code has it. A simulate-turn request that runs the simulation to its end
  tests \<open>currentTurn >= maxTurns\<close> on the counter as it stood before the request: if it
  holds the state becomes \<open>Ended\<close> and the counter stays; otherwise the counter is
  incremented and the state becomes \<open>Purchasing\<close>. Hence, whatever requests are made for
  a game with \<open>maxTurns = 5\<close> that starts at \<open>currentTurn = 1\<close>: after \<open>n\<close> completed
  simulations the counter is \<open>1 + n\<close> (5 after the fifth), there are never more than
  five, and the game is \<open>Ended\<close> exactly when five have completed, that is by the
  request that found the counter at 5.
\<close>

theorem turn_advance_and_end:
  "(findById g_id (gamesDb w) gameId = Some g \<and> \<not> heldBack g organisationId w
      \<and> GamesService_simulateTurn gameId organisationId w = (Inr (g', os), w')
    \<longrightarrow> findById g_id (gamesDb w') gameId = Some g'
        \<and> (if currentTurn g \<ge> maxTurns g
            then state g' = Ended \<and> currentTurn g' = currentTurn g
            else state g' = Purchasing \<and> currentTurn g' = currentTurn g + 1))
   \<and> (requestsMade gameId w0 n w1 \<and> findById g_id (gamesDb w0) gameId = Some g0
      \<and> currentTurn g0 = 1 \<and> maxTurns g0 = 5 \<and> state g0 \<noteq> Ended
    \<longrightarrow> (\<exists>g1. findById g_id (gamesDb w1) gameId = Some g1 \<and> n \<le> 5
           \<and> currentTurn g1 = (if n = 5 then 5 else 1 + int n)
           \<and> (state g1 = Ended \<longleftrightarrow> n = 5)))"
proof (intro conjI impI)
  assume a: "findById g_id (gamesDb w) gameId = Some g \<and> \<not> heldBack g organisationId w
      \<and> GamesService_simulateTurn gameId organisationId w = (Inr (g', os), w')"
  then have f: "findById g_id (gamesDb w) gameId = Some g" and h: "\<not> heldBack g organisationId w"
    and r: "GamesService_simulateTurn gameId organisationId w = (Inr (g', os), w')"
    by simp_all
  from simulateTurn_fired [OF f h r] show "findById g_id (gamesDb w') gameId = Some g'" by simp
  from simulateTurn_fired [OF f h r]
  show "if currentTurn g \<ge> maxTurns g
        then state g' = Ended \<and> currentTurn g' = currentTurn g
        else state g' = Purchasing \<and> currentTurn g' = currentTurn g + 1"
    by simp
next
  assume "requestsMade gameId w0 n w1 \<and> findById g_id (gamesDb w0) gameId = Some g0
      \<and> currentTurn g0 = 1 \<and> maxTurns g0 = 5 \<and> state g0 \<noteq> Ended"
  then show "\<exists>g1. findById g_id (gamesDb w1) gameId = Some g1 \<and> n \<le> 5
           \<and> currentTurn g1 = (if n = 5 then 5 else 1 + int n)
           \<and> (state g1 = Ended \<longleftrightarrow> n = 5)"
    using requestsMade_five_turns [of gameId w0 n w1 g0] by blast
qed

lemma quiet_found: "findById g_id (gamesDb (quiet turn st b pbs calls)) 10 = Some (solo turn st)"
  by (simp add: quiet_def solo_def emptyWorld_def)

lemma solo_not_held: "\<not> heldBack (solo turn st) organisationId w"
  by (simp add: heldBack_def solo_def)

theorem turn_advance_and_end_witness:
  "requestsMade 10 (quiet 1 Purchasing 0 [] 0) 5 (quiet 5 Ended 5000 [0, 1000, 2000, 3000, 4000] 5)
   \<and> findById g_id (gamesDb (quiet 1 Purchasing 0 [] 0)) 10 = Some (solo 1 Purchasing)
   \<and> currentTurn (solo 1 Purchasing) = 1 \<and> maxTurns (solo 1 Purchasing) = 5
   \<and> state (solo 1 Purchasing) \<noteq> Ended
   \<and> (\<exists>g1. findById g_id (gamesDb (quiet 5 Ended 5000 [0, 1000, 2000, 3000, 4000] 5)) 10 = Some g1
         \<and> currentTurn g1 = 5 \<and> state g1 = Ended)
   \<and> findById g_id (gamesDb (quiet 4 Purchasing 3000 [0, 1000, 2000] 3)) 10 = Some (solo 4 Purchasing)
   \<and> \<not> heldBack (solo 4 Purchasing) 1 (quiet 4 Purchasing 3000 [0, 1000, 2000] 3)
   \<and> GamesService_simulateTurn 10 1 (quiet 4 Purchasing 3000 [0, 1000, 2000] 3)
       = (Inr (solo 5 Purchasing, [(alpha 4000 [])\<lparr>pastBalances := [0, 1000, 2000, 3000]\<rparr>]),
          quiet 5 Purchasing 4000 [0, 1000, 2000, 3000] 4)
   \<and> findById g_id (gamesDb (quiet 5 Purchasing 4000 [0, 1000, 2000, 3000] 4)) 10
       = Some (solo 5 Purchasing)
   \<and> state (solo 5 Purchasing) = Purchasing \<and> currentTurn (solo 5 Purchasing) = 4 + 1"
proof -
  note step = requestsMade.fired [OF _ quiet_found solo_not_held]
  have run: "requestsMade 10 (quiet 1 Purchasing 0 [] 0) 5
               (quiet 5 Ended 5000 [0, 1000, 2000, 3000, 4000] 5)"
    using step [OF step [OF step [OF step [OF step [OF requestsMade.start quiet_turn1]
      quiet_turn2] quiet_turn3] quiet_turn4] quiet_turn5]
    by (simp add: eval_nat_numeral)
  have init: "currentTurn (solo 1 Purchasing) = 1" "maxTurns (solo 1 Purchasing) = 5"
    "state (solo 1 Purchasing) \<noteq> Ended"
    by (simp_all add: solo_def)
  have four: "currentTurn (solo 4 Purchasing) = 4" "maxTurns (solo 4 Purchasing) = 5"
    by (simp_all add: solo_def)
  from turn_advance_and_end [of "quiet 4 Purchasing 3000 [0, 1000, 2000] 3" 10 "solo 4 Purchasing" 1
      "solo 5 Purchasing" "[(alpha 4000 [])\<lparr>pastBalances := [0, 1000, 2000, 3000]\<rparr>]"
      "quiet 5 Purchasing 4000 [0, 1000, 2000, 3000] 4"
      "quiet 1 Purchasing 0 [] 0" 5 "quiet 5 Ended 5000 [0, 1000, 2000, 3000, 4000] 5"
      "solo 1 Purchasing"]
    run init four quiet_found solo_not_held quiet_turn4
  show ?thesis by simp
qed

text \<open>
  C2 as stated fails. The request made at \<open>currentTurn = 4\<close> of five leaves the counter
  at 5, equal to \<open>maxTurns\<close>, yet the state \<open>Purchasing\<close>: the test is not made on the
  incremented counter. The request made at \<open>currentTurn = 5\<close> ends the game and leaves
  the counter at 5: it is not incremented.
\<close>

theorem advance_tests_before_increment:
  "gamesDb (snd (GamesService_simulateTurn 10 1 (quiet 4 Purchasing 3000 [0, 1000, 2000] 3)))
     = [solo 5 Purchasing]
   \<and> maxTurns (solo 5 Purchasing) = 5
   \<and> gamesDb (snd (GamesService_simulateTurn 10 1 (quiet 5 Purchasing 4000 [0, 1000, 2000, 3000] 4)))
     = [solo 5 Ended]"
  by (simp only: quiet_turn4 quiet_turn5 snd_conv) (simp add: quiet_def solo_def)


section \<open>Readiness in a competitive game\<close>


end
